theory Spec2Isabelle
  imports Complex_Main
begin

section \<open>raw2mpc: the raw data file to MATPOWER case converter\<close>

text \<open>
  A shallow embedding of \<^verbatim>\<open>src/raw2mpc.py\<close> (Python 2). Every function of the
  source is a HOL function of the same name without the leading underscore
  (\<^verbatim>\<open>_delimiter\<close> and \<^verbatim>\<open>_version\<close> are \<open>delimiter_of\<close> and \<open>version_of\<close>, since
  \<^verbatim>\<open>pf2mpc\<close> has parameters called \<^verbatim>\<open>delimiter\<close> and \<^verbatim>\<open>version\<close>).

  \<^item> An exception is a value of \<open>error\<close>; a function that may raise returns
    \<open>error + (result \<times> log)\<close>, with \<open>Inl\<close> for the exception.
  \<^item> The log is the list of records handed to \<^verbatim>\<open>logger\<close>, in order.
  \<^item> The csv reader is the list of rows that are still unread; \<^verbatim>\<open>reader.next()\<close>
    takes the head and raises \<^verbatim>\<open>StopIteration\<close> on the empty list. A function that
    reads returns the reader it leaves behind.
  \<^item> A numpy table is a list of rows, each a list of cells. A float64 cell is the real
    number it denotes: rounding, infinities and NaN are outside the model.
  \<^item> The bus map (a dict from text to row position) is a map \<open>string \<rightharpoonup> nat\<close>.
\<close>

subsection \<open>Exceptions, log records, results\<close>

datatype error = StopIteration | AssertionError | IndexError | ValueError | TypeError

text \<open>One constructor per call of \<^verbatim>\<open>logger\<close> in the source, with the values the message is
  formatted from.\<close>

datatype logrec =
    LoadingPF string
  | LoadingOPF string
  | ErrorOpening string
  | ErrorSaving string
  | BusRecords nat
  | LoadRecords nat
  | GeneratorRecords nat
  | BranchRecords nat
  | ShuntRecords nat
  | ConstCurrentIgnored real real string nat
  | ConstAdmittanceIgnored real real string nat
  | NotScaled string nat real
  | BusNotFound string
  | FoundComma
  | FoundWhitespace
  | NoVersionInfo int
  | VersionFound int
  | VersionNotSupported int

datatype level = INFO | WARNING | ERROR

fun level_of :: "logrec \<Rightarrow> level" where
  "level_of (ErrorOpening _) = ERROR"
| "level_of (ErrorSaving _) = ERROR"
| "level_of (BusNotFound _) = ERROR"
| "level_of (ConstCurrentIgnored _ _ _ _) = WARNING"
| "level_of (ConstAdmittanceIgnored _ _ _ _) = WARNING"
| "level_of (NotScaled _ _ _) = WARNING"
| "level_of (VersionNotSupported _) = WARNING"
| "level_of _ = INFO"

type_synonym 'a res = "error + ('a \<times> logrec list)"

definition ret :: "'a \<Rightarrow> 'a res" where
  "ret x = Inr (x, [])"

definition raise :: "error \<Rightarrow> 'a res" where
  "raise e = Inl e"

definition logger :: "logrec \<Rightarrow> unit res" where
  "logger r = Inr ((), [r])"

text \<open>Sequencing: the second statement runs only if the first did not raise, and the log
  grows.\<close>

definition bind_res :: "'a res \<Rightarrow> ('a \<Rightarrow> 'b res) \<Rightarrow> 'b res" where
  "bind_res m f =
     (case m of
        Inl e \<Rightarrow> Inl e
      | Inr (x, l1) \<Rightarrow>
          (case f x of
             Inl e \<Rightarrow> Inl e
           | Inr (y, l2) \<Rightarrow> Inr (y, l1 @ l2)))"

subsection \<open>What the source takes from Python's library\<close>

text \<open>
  \<^verbatim>\<open>float\<close>, \<^verbatim>\<open>int\<close> and \<^verbatim>\<open>csv.reader\<close> are not code of this repository: the model takes
  them as parameters. \<open>py_float\<close> and \<open>py_int\<close> give \<open>None\<close> where Python raises
  \<^verbatim>\<open>ValueError\<close>; \<open>csv_reader d fd\<close> is the list of rows that
  \<^verbatim>\<open>csv.reader(fd, delimiter=d, skipinitialspace=True)\<close> yields over the lines \<open>fd\<close>.
\<close>

record builtins =
  py_float :: "string \<Rightarrow> real option"
  py_int :: "string \<Rightarrow> int option"
  csv_reader :: "char \<Rightarrow> string list \<Rightarrow> string list list"

type_synonym row = "string list"
type_synonym reader = "row list"
type_synonym table = "real list list"
type_synonym busmap = "string \<rightharpoonup> nat"

text \<open>\<^verbatim>\<open>s.split("/")[0]\<close>, \<^verbatim>\<open>s.strip()\<close> and \<^verbatim>\<open>s.strip("'")\<close>.\<close>

definition split_slash0 :: "string \<Rightarrow> string" where
  "split_slash0 s = takeWhile (\<lambda>c. c \<noteq> CHR ''/'') s"

definition py_space :: "char \<Rightarrow> bool" where
  "py_space c \<longleftrightarrow>
     c = CHR '' '' \<or> c = CHR 0x09 \<or> c = CHR 0x0A \<or> c = CHR 0x0B \<or> c = CHR 0x0C \<or> c = CHR 0x0D"

definition strip :: "string \<Rightarrow> string" where
  "strip s = rev (dropWhile py_space (rev (dropWhile py_space s)))"

definition strip_quote :: "string \<Rightarrow> string" where
  "strip_quote s =
     rev (dropWhile (\<lambda>c. c = CHR 0x27) (rev (dropWhile (\<lambda>c. c = CHR 0x27) s)))"

text \<open>\<^verbatim>\<open>row[n]\<close>, \<^verbatim>\<open>float(row[n])\<close> and \<^verbatim>\<open>int(row[n])\<close>: the index first, then the
  conversion.\<close>

definition getf :: "row \<Rightarrow> nat \<Rightarrow> string res" where
  "getf r n = (if n < length r then ret (r ! n) else raise IndexError)"

definition to_float :: "builtins \<Rightarrow> string \<Rightarrow> real res" where
  "to_float B s = (case py_float B s of None \<Rightarrow> raise ValueError | Some v \<Rightarrow> ret v)"

definition to_int :: "builtins \<Rightarrow> string \<Rightarrow> int res" where
  "to_int B s = (case py_int B s of None \<Rightarrow> raise ValueError | Some v \<Rightarrow> ret v)"

definition float_at :: "builtins \<Rightarrow> row \<Rightarrow> nat \<Rightarrow> real res" where
  "float_at B r n = bind_res (getf r n) (to_float B)"

definition int_at :: "builtins \<Rightarrow> row \<Rightarrow> nat \<Rightarrow> int res" where
  "int_at B r n = bind_res (getf r n) (to_int B)"

text \<open>The test of every section loop: \<^verbatim>\<open>row[0].split("/")[0].strip() != "0"\<close>.\<close>

definition not_sentinel :: "string \<Rightarrow> bool" where
  "not_sentinel f0 \<longleftrightarrow> strip (split_slash0 f0) \<noteq> ''0''"

text \<open>\<^verbatim>\<open>table[idx, col]\<close> read and written; numpy raises \<^verbatim>\<open>IndexError\<close> out of range.\<close>

definition get_cell :: "table \<Rightarrow> nat \<Rightarrow> nat \<Rightarrow> real res" where
  "get_cell t idx col =
     (if idx < length t \<and> col < length (t ! idx) then ret (t ! idx ! col)
      else raise IndexError)"

definition set_cell :: "table \<Rightarrow> nat \<Rightarrow> nat \<Rightarrow> real \<Rightarrow> table res" where
  "set_cell t idx col v =
     (if idx < length t \<and> col < length (t ! idx) then ret (t[idx := (t ! idx)[col := v]])
      else raise IndexError)"

subsection \<open>Utilities\<close>

definition DEFAULT_VERSION :: int where
  "DEFAULT_VERSION = 30"

definition SUPPORTED_VERSIONS :: "int list" where
  "SUPPORTED_VERSIONS = [29, 30, 31, 32]"

definition busidx :: "string \<Rightarrow> busmap \<Rightarrow> nat option res" where
  "busidx i busmap =
     (let i' = strip_quote i in
      case busmap i' of
        Some c \<Rightarrow> ret (Some c)
      | None \<Rightarrow> bind_res (logger (BusNotFound i')) (\<lambda>_. ret None))"

definition delimiter_of :: "string list \<Rightarrow> char res" where
  "delimiter_of fd =
     (case fd of
        [] \<Rightarrow> raise StopIteration
      | line0 # _ \<Rightarrow>
          (let header0 = split_slash0 line0 in
           if CHR '','' \<in> set header0
           then bind_res (logger FoundComma) (\<lambda>_. ret (CHR '',''))
           else bind_res (logger FoundWhitespace) (\<lambda>_. ret (CHR '' ''))))"

definition version_of :: "builtins \<Rightarrow> string list \<Rightarrow> char \<Rightarrow> int res" where
  "version_of B fd delimiter =
     (case csv_reader B delimiter fd of
        [] \<Rightarrow> raise StopIteration
      | h0 # _ \<Rightarrow>
          if length h0 < 3
          then bind_res (logger (NoVersionInfo DEFAULT_VERSION)) (\<lambda>_. ret DEFAULT_VERSION)
          else
            bind_res (if CHR ''/'' \<in> set (h0 ! 2)
                      then to_int B (strip (split_slash0 (h0 ! 2)))
                      else to_int B (h0 ! 2)) (\<lambda>version.
            bind_res (logger (VersionFound version)) (\<lambda>_.
            if version \<notin> set SUPPORTED_VERSIONS
            then bind_res (logger (VersionNotSupported version)) (\<lambda>_. ret DEFAULT_VERSION)
            else ret version)))"

subsection \<open>The sections\<close>

definition next_row :: "reader \<Rightarrow> (row \<times> reader) res" where
  "next_row reader = (case reader of [] \<Rightarrow> raise StopIteration | r # rest \<Rightarrow> ret (r, rest))"

definition case_identification :: "builtins \<Rightarrow> reader \<Rightarrow> (real \<times> reader) res" where
  "case_identification B reader =
     bind_res (next_row reader) (\<lambda>(h0, reader).
     bind_res (next_row reader) (\<lambda>(_, reader).
     bind_res (next_row reader) (\<lambda>(_, reader).
     bind_res (getf h0 0) (\<lambda>ic.
     if ic = ''0'' \<or> ic = ''1''
     then bind_res (float_at B h0 1) (\<lambda>baseMVA. ret (baseMVA, reader))
     else raise AssertionError))))"

text \<open>
  The body of the loop of \<^verbatim>\<open>_bus_data\<close>: the bus row of one record, and the bus map with
  the record's number and name pointing at position \<open>c\<close>. Columns:
  \<^verbatim>\<open>bus_i type Pd Qd Gs Bs area Vm Va baseKV zone Vmax Vmin\<close>.
\<close>

definition bus_record ::
  "builtins \<Rightarrow> int \<Rightarrow> row \<Rightarrow> busmap \<Rightarrow> nat \<Rightarrow> (real list \<times> busmap) res" where
  "bus_record B version busdata busmap c =
     bind_res (getf busdata 0) (\<lambda>i.
     bind_res (getf busdata 1) (\<lambda>f1.
     let name = strip_quote f1;
         busmap = busmap(i \<mapsto> c);
         busmap = busmap(name \<mapsto> c) in
     bind_res (to_int B i) (\<lambda>bus_i.
     bind_res (float_at B busdata 3) (\<lambda>type.
     bind_res
       (if version \<in> set [29, 30] then
          bind_res (float_at B busdata 4) (\<lambda>Gs.
          bind_res (float_at B busdata 5) (\<lambda>Bs.
          bind_res (int_at B busdata 6) (\<lambda>area.
          bind_res (float_at B busdata 8) (\<lambda>Vm.
          bind_res (float_at B busdata 9) (\<lambda>Va.
          bind_res (float_at B busdata 7) (\<lambda>zone.
          ret (Gs, Bs, real_of_int area, Vm, Va, zone)))))))
        else if version \<in> set [31, 32] then
          bind_res (int_at B busdata 4) (\<lambda>area.
          bind_res (float_at B busdata 7) (\<lambda>Vm.
          bind_res (float_at B busdata 8) (\<lambda>Va.
          bind_res (float_at B busdata 5) (\<lambda>zone.
          ret (0, 0, real_of_int area, Vm, Va, zone)))))
        else ret (0, 0, 0, 0, 0, 0))
       (\<lambda>(Gs, Bs, area, Vm, Va, zone).
     bind_res (float_at B busdata 2) (\<lambda>baseKV.
     ret ([real_of_int bus_i, type, 0, 0, Gs, Bs, area, Vm, Va, baseKV, zone, 1.1, 0.9],
          busmap)))))))"

fun bus_loop ::
  "builtins \<Rightarrow> int \<Rightarrow> reader \<Rightarrow> table \<Rightarrow> busmap \<Rightarrow> nat \<Rightarrow> ((table \<times> busmap) \<times> reader) res" where
  "bus_loop B version [] buses busmap c = raise StopIteration"
| "bus_loop B version (busdata # reader) buses busmap c =
     bind_res (getf busdata 0) (\<lambda>f0.
     if not_sentinel f0 then
       bind_res (bus_record B version busdata busmap c) (\<lambda>(bus, busmap).
       bus_loop B version reader (buses @ [bus]) busmap (Suc c))
     else
       bind_res (logger (BusRecords c)) (\<lambda>_. ret ((buses, busmap), reader)))"

definition bus_data :: "builtins \<Rightarrow> reader \<Rightarrow> int \<Rightarrow> ((table \<times> busmap) \<times> reader) res" where
  "bus_data B reader version = bus_loop B version reader [] Map.empty 0"

text \<open>
  The body of the loop of \<^verbatim>\<open>_load_data\<close>. \<^verbatim>\<open>bool(loaddata[2])\<close> is the truth value of a
  string: true unless the string is empty. \<^verbatim>\<open>if Ip or Iq\<close> tests the floats against zero.
\<close>

definition load_record ::
  "builtins \<Rightarrow> int \<Rightarrow> row \<Rightarrow> table \<Rightarrow> busmap \<Rightarrow> table res" where
  "load_record B version loaddata bus busmap =
     bind_res (getf loaddata 2) (\<lambda>f2.
     let status = (f2 \<noteq> []) in
     bind_res (getf loaddata 0) (\<lambda>i.
     bind_res (busidx i busmap) (\<lambda>idx.
     case (status, idx) of
       (True, Some idx) \<Rightarrow>
         bind_res (float_at B loaddata 5) (\<lambda>PL.
         bind_res (set_cell bus idx 2 PL) (\<lambda>bus.
         bind_res (float_at B loaddata 6) (\<lambda>QL.
         bind_res (set_cell bus idx 3 QL) (\<lambda>bus.
         bind_res (float_at B loaddata 7) (\<lambda>Ip.
         bind_res (float_at B loaddata 8) (\<lambda>Iq.
         bind_res (if Ip \<noteq> 0 \<or> Iq \<noteq> 0 then logger (ConstCurrentIgnored Ip Iq i idx)
                   else ret ()) (\<lambda>_.
         bind_res (float_at B loaddata 9) (\<lambda>Yp.
         bind_res (float_at B loaddata 10) (\<lambda>Yq.
         bind_res (if Yp \<noteq> 0 \<or> Yq \<noteq> 0 then logger (ConstAdmittanceIgnored Yp Yq i idx)
                   else ret ()) (\<lambda>_.
         bind_res
           (if version = 32 then
              bind_res (float_at B loaddata 12) (\<lambda>scale.
              if scale \<noteq> 0.0 \<or> scale \<noteq> 1.0 then logger (NotScaled i idx scale)
              else ret ())
            else ret ()) (\<lambda>_.
         ret bus)))))))))))
     | _ \<Rightarrow> ret bus)))"

fun load_loop ::
  "builtins \<Rightarrow> int \<Rightarrow> reader \<Rightarrow> table \<Rightarrow> busmap \<Rightarrow> nat \<Rightarrow> (table \<times> reader) res" where
  "load_loop B version [] bus busmap c = raise StopIteration"
| "load_loop B version (loaddata # reader) bus busmap c =
     bind_res (getf loaddata 0) (\<lambda>f0.
     if not_sentinel f0 then
       bind_res (load_record B version loaddata bus busmap) (\<lambda>bus.
       load_loop B version reader bus busmap (Suc c))
     else
       bind_res (logger (LoadRecords c)) (\<lambda>_. ret (bus, reader)))"

definition load_data ::
  "builtins \<Rightarrow> reader \<Rightarrow> table \<Rightarrow> busmap \<Rightarrow> int \<Rightarrow> (table \<times> reader) res" where
  "load_data B reader bus busmap version = load_loop B version reader bus busmap 0"

text \<open>
  The body of the loop of \<^verbatim>\<open>_generator_data\<close>: the table with the record's row appended, or
  the table as it was when the bus is not found. Column 0 of the 21 is never assigned.
\<close>

definition generator_record :: "builtins \<Rightarrow> row \<Rightarrow> busmap \<Rightarrow> table \<Rightarrow> table res" where
  "generator_record B gendata busmap generators =
     bind_res (getf gendata 0) (\<lambda>i.
     bind_res (busidx i busmap) (\<lambda>idx.
     case idx of
       Some idx \<Rightarrow>
         bind_res (float_at B gendata 2) (\<lambda>Pg.
         bind_res (float_at B gendata 3) (\<lambda>Qg.
         bind_res (float_at B gendata 4) (\<lambda>Qmax.
         bind_res (float_at B gendata 5) (\<lambda>Qmin.
         bind_res (float_at B gendata 6) (\<lambda>Vg.
         bind_res (float_at B gendata 8) (\<lambda>mBase.
         bind_res (float_at B gendata 14) (\<lambda>status.
         bind_res (float_at B gendata 16) (\<lambda>Pmax.
         bind_res (float_at B gendata 17) (\<lambda>Pmin.
         ret (generators @
              [[0, Pg, Qg, Qmax, Qmin, Vg, mBase, status, Pmax, Pmin] @ replicate 11 0]))))))))))
     | None \<Rightarrow> ret generators))"

fun generator_loop :: "builtins \<Rightarrow> reader \<Rightarrow> busmap \<Rightarrow> table \<Rightarrow> (table \<times> reader) res" where
  "generator_loop B [] busmap generators = raise StopIteration"
| "generator_loop B (gendata # reader) busmap generators =
     bind_res (getf gendata 0) (\<lambda>f0.
     if not_sentinel f0 then
       bind_res (generator_record B gendata busmap generators) (\<lambda>generators.
       generator_loop B reader busmap generators)
     else
       bind_res (logger (GeneratorRecords (length generators))) (\<lambda>_.
       ret (generators, reader)))"

definition generator_data :: "builtins \<Rightarrow> reader \<Rightarrow> busmap \<Rightarrow> (table \<times> reader) res" where
  "generator_data B reader busmap = generator_loop B reader busmap []"

text \<open>
  The body of the loop of \<^verbatim>\<open>_nontransformer_branch_data\<close>. Columns:
  \<^verbatim>\<open>fbus tbus r x b rateA rateB rateC ratio angle status angmin angmax\<close>. The first cell is
  \<^verbatim>\<open>bus[fbus, 0]\<close> and the second \<^verbatim>\<open>bus[tbus, 1]\<close>.
\<close>

definition branch_record ::
  "builtins \<Rightarrow> row \<Rightarrow> table \<Rightarrow> busmap \<Rightarrow> table \<Rightarrow> table res" where
  "branch_record B brchdata bus busmap branches =
     bind_res (getf brchdata 0) (\<lambda>f0.
     bind_res (busidx f0 busmap) (\<lambda>fbus.
     bind_res (getf brchdata 1) (\<lambda>f1.
     bind_res (busidx f1 busmap) (\<lambda>tbus.
     case (fbus, tbus) of
       (Some fbus, Some tbus) \<Rightarrow>
         bind_res (get_cell bus fbus 0) (\<lambda>b0.
         bind_res (get_cell bus tbus 1) (\<lambda>b1.
         bind_res (float_at B brchdata 3) (\<lambda>r.
         bind_res (float_at B brchdata 4) (\<lambda>x.
         bind_res (float_at B brchdata 5) (\<lambda>b.
         bind_res (float_at B brchdata 6) (\<lambda>rateA.
         bind_res (float_at B brchdata 7) (\<lambda>rateB.
         bind_res (float_at B brchdata 8) (\<lambda>rateC.
         bind_res (float_at B brchdata 13) (\<lambda>status.
         ret (branches @
              [[b0, b1, r, x, b, rateA, rateB, rateC, 0, 0, status, - 360, 360]]))))))))))
     | _ \<Rightarrow> ret branches))))"

fun branch_loop ::
  "builtins \<Rightarrow> reader \<Rightarrow> table \<Rightarrow> busmap \<Rightarrow> table \<Rightarrow> (table \<times> reader) res" where
  "branch_loop B [] bus busmap branches = raise StopIteration"
| "branch_loop B (brchdata # reader) bus busmap branches =
     bind_res (getf brchdata 0) (\<lambda>f0.
     if not_sentinel f0 then
       bind_res (branch_record B brchdata bus busmap branches) (\<lambda>branches.
       branch_loop B reader bus busmap branches)
     else
       bind_res (logger (BranchRecords (length branches))) (\<lambda>_.
       ret (branches, reader)))"

definition nontransformer_branch_data ::
  "builtins \<Rightarrow> reader \<Rightarrow> table \<Rightarrow> busmap \<Rightarrow> (table \<times> reader) res" where
  "nontransformer_branch_data B reader bus busmap = branch_loop B reader bus busmap []"

text \<open>The body of the loop of \<^verbatim>\<open>_switched_shunt_data\<close>; \<^verbatim>\<open>bus[idx, 5] += bs\<close> reads the
  cell and writes the sum.\<close>

definition shunt_record ::
  "builtins \<Rightarrow> int \<Rightarrow> row \<Rightarrow> table \<Rightarrow> busmap \<Rightarrow> table res" where
  "shunt_record B version shuntdata bus busmap =
     bind_res (if version = 32 then bind_res (getf shuntdata 2) (\<lambda>f2. ret (f2 \<noteq> []))
               else ret True) (\<lambda>status.
     bind_res (getf shuntdata 0) (\<lambda>f0.
     bind_res (busidx f0 busmap) (\<lambda>idx.
     case (status, idx) of
       (True, Some idx) \<Rightarrow>
         bind_res (if version = 32 then float_at B shuntdata 9
                   else float_at B shuntdata 7) (\<lambda>bs.
         bind_res (get_cell bus idx 5) (\<lambda>old.
         set_cell bus idx 5 (old + bs)))
     | _ \<Rightarrow> ret bus)))"

fun shunt_loop ::
  "builtins \<Rightarrow> int \<Rightarrow> reader \<Rightarrow> table \<Rightarrow> busmap \<Rightarrow> nat \<Rightarrow> (table \<times> reader) res" where
  "shunt_loop B version [] bus busmap c = raise StopIteration"
| "shunt_loop B version (shuntdata # reader) bus busmap c =
     bind_res (getf shuntdata 0) (\<lambda>f0.
     if not_sentinel f0 then
       bind_res (shunt_record B version shuntdata bus busmap) (\<lambda>bus.
       shunt_loop B version reader bus busmap (Suc c))
     else
       bind_res (logger (ShuntRecords c)) (\<lambda>_. ret (bus, reader)))"

definition switched_shunt_data ::
  "builtins \<Rightarrow> reader \<Rightarrow> table \<Rightarrow> int \<Rightarrow> busmap \<Rightarrow> (table \<times> reader) res" where
  "switched_shunt_data B reader bus version busmap = shunt_loop B version reader bus busmap 0"

text \<open>The sections without parsing logic: the body of each is \<^verbatim>\<open>pass\<close>. Nothing is read, so
  the reader they are given is the reader they leave behind.\<close>

definition transformer_data :: "reader \<Rightarrow> table \<Rightarrow> int option \<Rightarrow> busmap \<Rightarrow> reader res" where
  "transformer_data reader branch version busmap = ret reader"

definition fixed_shunt_data :: "reader \<Rightarrow> reader res" where
  "fixed_shunt_data reader = ret reader"

definition area_interchange_data :: "reader \<Rightarrow> reader res" where
  "area_interchange_data reader = ret reader"

definition two_terminal_dc_line_data :: "reader \<Rightarrow> reader res" where
  "two_terminal_dc_line_data reader = ret reader"

definition vsc_dc_lines :: "reader \<Rightarrow> reader res" where
  "vsc_dc_lines reader = ret reader"

definition transformer_impedance_correction_tables :: "reader \<Rightarrow> reader res" where
  "transformer_impedance_correction_tables reader = ret reader"

definition multi_terminal_dc_transmission_line_data :: "reader \<Rightarrow> reader res" where
  "multi_terminal_dc_transmission_line_data reader = ret reader"

definition multi_section_line_grouping_data :: "reader \<Rightarrow> reader res" where
  "multi_section_line_grouping_data reader = ret reader"

definition zone_data :: "reader \<Rightarrow> reader res" where
  "zone_data reader = ret reader"

definition interarea_transfer_data :: "reader \<Rightarrow> reader res" where
  "interarea_transfer_data reader = ret reader"

definition owner_data :: "reader \<Rightarrow> reader res" where
  "owner_data reader = ret reader"

definition facts_device_data :: "reader \<Rightarrow> reader res" where
  "facts_device_data reader = ret reader"

definition q_record :: "reader \<Rightarrow> reader res" where
  "q_record reader = ret reader"

subsection \<open>The power flow pipeline\<close>

text \<open>
  A call that passes fewer arguments than the function has parameters without a default
  raises \<^verbatim>\<open>TypeError\<close> before the body runs. \<open>f\<close> is the function, applied to the
  arguments the call does pass.
\<close>

definition too_few_args :: "('x \<Rightarrow> 'y) \<Rightarrow> 'a res" where
  "too_few_args f = raise TypeError"

text \<open>The case: a dict from the table's name to a scalar or a table.\<close>

datatype mval = Scalar real | Table table

type_synonym mpc = "(string \<times> mval) list"

text \<open>
  Lines 110 to 130 of \<^verbatim>\<open>pf2mpc\<close>: the delimiter and the revision, then the sections
  from the case identification to the two-terminal DC lines. The result is every local
  variable the rest of \<^verbatim>\<open>pf2mpc\<close> reads:
  \<open>(rev, baseMVA, busdata, busmap, gendata, branchdata, reader)\<close>.
\<close>

definition pf2mpc_sections ::
  "builtins \<Rightarrow> string list \<Rightarrow> int option \<Rightarrow> char option \<Rightarrow>
   (int \<times> real \<times> table \<times> busmap \<times> table \<times> table \<times> reader) res" where
  "pf2mpc_sections B fd version delimiter =
     bind_res (case delimiter of None \<Rightarrow> delimiter_of fd | Some d \<Rightarrow> ret d) (\<lambda>sep.
     bind_res (case version of None \<Rightarrow> version_of B fd sep | Some v \<Rightarrow> ret v) (\<lambda>rev.
     let reader = csv_reader B sep fd in
     bind_res (case_identification B reader) (\<lambda>(baseMVA, reader).
     bind_res (bus_data B reader rev) (\<lambda>((busdata, busmap), reader).
     bind_res (load_data B reader busdata busmap rev) (\<lambda>(busdata, reader).
     bind_res (if rev \<in> set [31, 32] then fixed_shunt_data reader else ret reader) (\<lambda>reader.
     bind_res (generator_data B reader busmap) (\<lambda>(gendata, reader).
     bind_res (nontransformer_branch_data B reader busdata busmap) (\<lambda>(branchdata, reader).
     bind_res (transformer_data reader branchdata version busmap) (\<lambda>reader.
     bind_res (area_interchange_data reader) (\<lambda>reader.
     bind_res (two_terminal_dc_line_data reader) (\<lambda>reader.
     ret (rev, baseMVA, busdata, busmap, gendata, branchdata, reader))))))))))))"

text \<open>
  \<^verbatim>\<open>pf2mpc\<close>: the sections above, then lines 131 to 157. There \<^verbatim>\<open>_vsc_dc_lines()\<close> and
  the calls after it pass no argument to functions of one parameter, and
  \<^verbatim>\<open>_switched_shunt_data(reader, busdata)\<close> passes two of four.
\<close>

definition pf2mpc :: "builtins \<Rightarrow> string list \<Rightarrow> int option \<Rightarrow> char option \<Rightarrow> mpc res" where
  "pf2mpc B fd version delimiter =
     bind_res (pf2mpc_sections B fd version delimiter)
       (\<lambda>(rev, baseMVA, busdata, busmap, gendata, branchdata, reader).
     bind_res (too_few_args vsc_dc_lines) (\<lambda>_ :: unit.
     bind_res (if rev \<in> set [29, 30] then too_few_args (switched_shunt_data B reader busdata)
               else ret ()) (\<lambda>_ :: unit.
     bind_res (too_few_args transformer_impedance_correction_tables) (\<lambda>_ :: unit.
     bind_res (too_few_args multi_terminal_dc_transmission_line_data) (\<lambda>_ :: unit.
     bind_res (too_few_args multi_section_line_grouping_data) (\<lambda>_ :: unit.
     bind_res (too_few_args zone_data) (\<lambda>_ :: unit.
     bind_res (too_few_args interarea_transfer_data) (\<lambda>_ :: unit.
     bind_res (too_few_args owner_data) (\<lambda>_ :: unit.
     bind_res (too_few_args facts_device_data) (\<lambda>_ :: unit.
     bind_res (if rev \<in> set [31, 32] then too_few_args (switched_shunt_data B)
               else ret ()) (\<lambda>_ :: unit.
     bind_res (if rev = 32 then too_few_args q_record else ret ()) (\<lambda>_ :: unit.
     ret [(''baseMVA'', Scalar baseMVA),
          (''bus'', Table busdata),
          (''gen'', Table gendata),
          (''branch'', Table branchdata)]))))))))))))"

subsection \<open>The converter\<close>

definition opf2mpc :: "string list \<Rightarrow> int option \<Rightarrow> char option \<Rightarrow> mpc" where
  "opf2mpc fd version delim = []"

text \<open>\<^verbatim>\<open>mpc.update(other)\<close> on a dict kept as an association list.\<close>

fun dict_set :: "mpc \<Rightarrow> string \<Rightarrow> mval \<Rightarrow> mpc" where
  "dict_set [] k v = [(k, v)]"
| "dict_set ((k', v') # d) k v = (if k' = k then (k, v) # d else (k', v') # dict_set d k v)"

definition dict_update :: "mpc \<Rightarrow> mpc \<Rightarrow> mpc" where
  "dict_update d other = foldl (\<lambda>d (k, v). dict_set d k v) d other"

text \<open>
  An input argument of \<^verbatim>\<open>raw2mpc\<close> is a path (a \<^verbatim>\<open>basestring\<close>) or an open file. The file
  system is the parameter \<open>fopen\<close>: the lines of the file at a path, or \<open>None\<close> where
  \<^verbatim>\<open>open\<close> raises \<^verbatim>\<open>IOError\<close>. \<open>savemat path mpc\<close> is false where \<^verbatim>\<open>savemat\<close> raises
  \<^verbatim>\<open>IOError\<close>. The result is the pair \<^verbatim>\<open>(mpc, status)\<close>.
\<close>

datatype source = Path string | Stream "string list"

definition raw2mpc ::
  "builtins \<Rightarrow> (string \<Rightarrow> string list option) \<Rightarrow> (string \<Rightarrow> mpc \<Rightarrow> bool) \<Rightarrow>
   source \<Rightarrow> source option \<Rightarrow> string option \<Rightarrow> int option \<Rightarrow> char option \<Rightarrow>
   (mpc \<times> int) res" where
  "raw2mpc B fopen savemat pf_rawfile opf_rawfile matfile ver delim =
     (let mpc = []; status = 0 in
      bind_res
        (case pf_rawfile of
           Path p \<Rightarrow>
             bind_res (logger (LoadingPF p)) (\<lambda>_.
             case fopen p of
               None \<Rightarrow> bind_res (logger (ErrorOpening p)) (\<lambda>_. ret (None, 1))
             | Some fd \<Rightarrow> bind_res (pf2mpc B fd ver delim) (\<lambda>m. ret (Some m, status)))
         | Stream fd \<Rightarrow> bind_res (pf2mpc B fd ver delim) (\<lambda>m. ret (Some m, status)))
        (\<lambda>(pf_mpc, status).
      let mpc = (case pf_mpc of None \<Rightarrow> mpc | Some m \<Rightarrow> dict_update mpc m) in
      bind_res
        (case opf_rawfile of
           Some (Path p) \<Rightarrow>
             bind_res (logger (LoadingOPF p)) (\<lambda>_.
             case fopen p of
               None \<Rightarrow> bind_res (logger (ErrorOpening p)) (\<lambda>_. ret (None, 2))
             | Some fd \<Rightarrow> ret (Some (opf2mpc fd ver delim), status))
         | Some (Stream fd) \<Rightarrow> ret (Some (opf2mpc fd ver delim), status)
         | None \<Rightarrow> ret (None, status))
        (\<lambda>(opf_mpc, status).
      let mpc = (case opf_mpc of None \<Rightarrow> mpc | Some m \<Rightarrow> dict_update mpc m) in
      bind_res
        (case matfile of
           Some f \<Rightarrow>
             if length mpc > 0 then
               (if savemat f mpc then ret status
                else bind_res (logger (ErrorSaving f)) (\<lambda>_. ret 3))
             else ret status
         | None \<Rightarrow> ret status)
        (\<lambda>status.
      ret (mpc, status)))))"

subsection \<open>An instance of the library functions\<close>

text \<open>
  To run the model on a file, \<open>py0\<close> reads plain decimal literals (an optional sign,
  digits, an optional fraction) between optional white space, where \<^verbatim>\<open>int\<close> and \<^verbatim>\<open>float\<close>
  read them too, and splits a line as \<^verbatim>\<open>csv.reader\<close> splits a line without double
  quotes: a space at the start of a field is skipped, and an empty line is an empty row.
\<close>

definition digit_val :: "char \<Rightarrow> nat option" where
  "digit_val c = map_of (zip ''0123456789'' [0 ..< 10]) c"

fun digits_val :: "string \<Rightarrow> nat \<Rightarrow> nat option" where
  "digits_val [] acc = Some acc"
| "digits_val (c # cs) acc =
     (case digit_val c of None \<Rightarrow> None | Some d \<Rightarrow> digits_val cs (10 * acc + d))"

definition unsign :: "string \<Rightarrow> bool \<times> string" where
  "unsign s =
     (let t = strip s in
      if t \<noteq> [] \<and> hd t = CHR ''-'' then (True, tl t)
      else if t \<noteq> [] \<and> hd t = CHR ''+'' then (False, tl t)
      else (False, t))"

definition int_dec :: "string \<Rightarrow> int option" where
  "int_dec s =
     (case unsign s of (neg, ds) \<Rightarrow>
        if ds = [] then None
        else (case digits_val ds 0 of
                None \<Rightarrow> None
              | Some n \<Rightarrow> Some (if neg then - int n else int n)))"

definition float_dec :: "string \<Rightarrow> real option" where
  "float_dec s =
     (case unsign s of (neg, u) \<Rightarrow>
        (let ip = takeWhile (\<lambda>c. c \<noteq> CHR ''.'') u;
             fp = drop (Suc (length ip)) u in
         if ip = [] \<and> fp = [] then None
         else (case (digits_val ip 0, digits_val fp 0) of
                 (Some a, Some b) \<Rightarrow>
                   Some ((if neg then - 1 else 1) * (real a + real b / 10 ^ length fp))
               | _ \<Rightarrow> None)))"

fun csv_fields :: "char \<Rightarrow> bool \<Rightarrow> string \<Rightarrow> string \<Rightarrow> string list" where
  "csv_fields d start cur [] = [cur]"
| "csv_fields d start cur (c # cs) =
     (if start \<and> c = CHR '' '' then csv_fields d True cur cs
      else if c = d then cur # csv_fields d True [] cs
      else csv_fields d False (cur @ [c]) cs)"

definition csv_line :: "char \<Rightarrow> string \<Rightarrow> string list" where
  "csv_line d l = (if l = [] then [] else csv_fields d True [] l)"

definition py0 :: builtins where
  "py0 = \<lparr>py_float = float_dec, py_int = int_dec, csv_reader = (\<lambda>d. map (csv_line d))\<rparr>"

subsection \<open>What the properties are stated with\<close>

text \<open>The third field of the header with a trailing \<^verbatim>\<open>/\<close>-comment removed: the text that
  \<^verbatim>\<open>_version\<close> hands to \<^verbatim>\<open>int\<close>.\<close>

definition revision_field :: "string \<Rightarrow> string" where
  "revision_field t = (if CHR ''/'' \<in> set t then strip (split_slash0 t) else t)"

text \<open>A row that ends a section, and a bus identifier that the bus map resolves.\<close>

definition is_sentinel_row :: "row \<Rightarrow> bool" where
  "is_sentinel_row r \<longleftrightarrow> r \<noteq> [] \<and> \<not> not_sentinel (r ! 0)"

definition resolves :: "busmap \<Rightarrow> string \<Rightarrow> bool" where
  "resolves busmap i \<longleftrightarrow> busmap (strip_quote i) \<noteq> None"

text \<open>
  What the specification asks of a section without parsing logic: read rows up to and
  including the section's sentinel. No function of the source does this; it is here to be
  compared with the placeholders.
\<close>

fun consume_section :: "reader \<Rightarrow> reader res" where
  "consume_section [] = raise StopIteration"
| "consume_section (r # reader) =
     bind_res (getf r 0) (\<lambda>f0.
     if not_sentinel f0 then consume_section reader else ret reader)"

text \<open>
  A switched shunt record (layout of revisions 29 to 31) that \<^verbatim>\<open>_switched_shunt_data\<close>
  reads without raising: it is not the sentinel and, when its bus resolves, \<^verbatim>\<open>BINIT\<close>
  (field 7) is a number and the bus row has its column 5. \<open>shunt_bs\<close> is what the
  record contributes to bus row \<open>k\<close>.
\<close>

definition shunt_row_ok :: "builtins \<Rightarrow> busmap \<Rightarrow> table \<Rightarrow> row \<Rightarrow> bool" where
  "shunt_row_ok B busmap bus r \<longleftrightarrow>
     r \<noteq> [] \<and> not_sentinel (r ! 0) \<and>
     (case busmap (strip_quote (r ! 0)) of
        None \<Rightarrow> True
      | Some k \<Rightarrow>
          7 < length r \<and> py_float B (r ! 7) \<noteq> None \<and> k < length bus \<and> 5 < length (bus ! k))"

definition shunt_bs :: "builtins \<Rightarrow> busmap \<Rightarrow> nat \<Rightarrow> row \<Rightarrow> real" where
  "shunt_bs B busmap k r =
     (if busmap (strip_quote (r ! 0)) = Some k
      then (case py_float B (r ! 7) of Some v \<Rightarrow> v | None \<Rightarrow> 0)
      else 0)"

text \<open>
  A branch record that \<^verbatim>\<open>_nontransformer_branch_data\<close> reads without raising, the records
  whose two ends resolve, and column 0 of the bus row of a record's from-bus (where
  \<^verbatim>\<open>_bus_data\<close> stores the bus number).
\<close>

definition branch_row_ok :: "builtins \<Rightarrow> busmap \<Rightarrow> table \<Rightarrow> row \<Rightarrow> bool" where
  "branch_row_ok B busmap bus r \<longleftrightarrow>
     1 < length r \<and> not_sentinel (r ! 0) \<and>
     (case (busmap (strip_quote (r ! 0)), busmap (strip_quote (r ! 1))) of
        (Some f, Some t) \<Rightarrow>
          13 < length r \<and> list_all (\<lambda>n. py_float B (r ! n) \<noteq> None) [3, 4, 5, 6, 7, 8, 13] \<and>
          f < length bus \<and> 0 < length (bus ! f) \<and> t < length bus \<and> 1 < length (bus ! t)
      | _ \<Rightarrow> True)"

definition both_resolve :: "busmap \<Rightarrow> row \<Rightarrow> bool" where
  "both_resolve busmap r \<longleftrightarrow> resolves busmap (r ! 0) \<and> resolves busmap (r ! 1)"

definition from_bus_number :: "table \<Rightarrow> busmap \<Rightarrow> row \<Rightarrow> real" where
  "from_bus_number bus busmap r =
     (case busmap (strip_quote (r ! 0)) of Some f \<Rightarrow> bus ! f ! 0 | None \<Rightarrow> 0)"

subsection \<open>Inputs\<close>

text \<open>
  A comma-delimited revision 30 file: the header with base 100 MVA, one bus (number 1,
  name BUS1, 138 kV, area 1, Vm 1.0, Va 0.0, zone 1), one load of 50 MW and 20 MVAr in
  service at bus 1, and the sentinel of every other section.
\<close>

definition end_to_end_file :: "string list" where
  "end_to_end_file =
    [''0, 100.0, 30 / case'',
     ''title'',
     ''comment'',
     ''1, 'BUS1', 138.0, 1, 0.0, 0.0, 1, 1, 1.0, 0.0, 1'',
     ''0 / END OF BUS DATA, BEGIN LOAD DATA'',
     ''1, 1, 1, 1, 1, 50.0, 20.0, 0.0, 0.0, 0.0, 0.0, 1'',
     ''0 / END OF LOAD DATA, BEGIN GENERATOR DATA'',
     ''0 / END OF GENERATOR DATA, BEGIN BRANCH DATA'',
     ''0 / END OF BRANCH DATA, BEGIN TRANSFORMER DATA'',
     ''0'', ''0'', ''0'', ''0'', ''0'', ''0'', ''0'', ''0'', ''0'', ''0'', ''0'']"

text \<open>The bus table and the bus map that \<^verbatim>\<open>_bus_data\<close> builds from the bus of that file, and
  the same for two buses numbered 5 (type 1) and 7 (type 2).\<close>

definition bus1 :: table where
  "bus1 = [[1, 1, 0, 0, 0, 0, 1, 1, 0, 138, 1, 1.1, 0.9]]"

definition busmap1 :: busmap where
  "busmap1 = [''1'' \<mapsto> 0, ''BUS1'' \<mapsto> 0]"

definition bus57 :: table where
  "bus57 = [[5, 1, 0, 0, 0, 0, 1, 1, 0, 138, 1, 1.1, 0.9],
            [7, 2, 0, 0, 0, 0, 1, 1, 0, 138, 1, 1.1, 0.9]]"

definition busmap57 :: busmap where
  "busmap57 = [''5'' \<mapsto> 0, ''FIVE'' \<mapsto> 0, ''7'' \<mapsto> 1, ''SEVEN'' \<mapsto> 1]"

text \<open>A load record of bus 1 with the given status, \<^verbatim>\<open>PL\<close>, \<^verbatim>\<open>QL\<close> and scale factor texts;
  a switched shunt record with the given bus and \<^verbatim>\<open>BINIT\<close>; a branch record between two
  buses; a fixed shunt record.\<close>

definition load_row :: "string \<Rightarrow> string \<Rightarrow> string \<Rightarrow> string \<Rightarrow> row" where
  "load_row status PL QL scale =
     [''1'', ''1'', status, ''1'', ''1'', PL, QL, ''0.0'', ''0.0'', ''0.0'', ''0.0'', ''1'', scale]"

definition shunt_row :: "string \<Rightarrow> string \<Rightarrow> row" where
  "shunt_row i binit = [i, ''0'', ''1.1'', ''0.9'', ''0'', ''100.0'', ''0'', binit, ''1'', binit]"

definition branch_row :: "string \<Rightarrow> string \<Rightarrow> row" where
  "branch_row i j =
     [i, j, ''1'', ''0.01'', ''0.1'', ''0.02'', ''100'', ''100'', ''100'',
      ''0'', ''0'', ''0'', ''0'', ''1'', ''1.0'']"

definition fixed_shunt_row :: row where
  "fixed_shunt_row = [''1'', ''1'', ''1'', ''0.0'', ''5.0'']"

section \<open>Properties\<close>

subsection \<open>Sequencing and lookups\<close>


lemma bind_res_Inl [simp]: "bind_res (Inl e) f = Inl e"
  by (simp add: bind_res_def)

lemma bind_res_raise [simp]: "bind_res (raise e) f = raise e"
  by (simp add: bind_res_def raise_def)

lemma bind_res_ret [simp]: "bind_res (ret x) f = f x"
  by (cases "f x") (auto simp: bind_res_def ret_def)

lemma bind_res_Inr:
  "bind_res (Inr (x, l1)) f = (case f x of Inl e \<Rightarrow> Inl e | Inr (y, l2) \<Rightarrow> Inr (y, l1 @ l2))"
  by (simp add: bind_res_def)

lemma bind_res_Inr_Inr [simp]:
  "f x = Inr (y, l2) \<Longrightarrow> bind_res (Inr (x, l1)) f = Inr (y, l1 @ l2)"
  by (simp add: bind_res_def)

lemma getf_in_range [simp]: "n < length r \<Longrightarrow> getf r n = ret (r ! n)"
  by (simp add: getf_def)

lemma float_at_Some: "n < length r \<Longrightarrow> py_float B (r ! n) = Some v \<Longrightarrow> float_at B r n = ret v"
  by (simp add: float_at_def to_float_def)

lemma busidx_Some [simp]: "busmap (strip_quote i) = Some k \<Longrightarrow> busidx i busmap = ret (Some k)"
  by (simp add: busidx_def)

lemma busidx_None [simp]:
  "busmap (strip_quote i) = None \<Longrightarrow> busidx i busmap = Inr (None, [BusNotFound (strip_quote i)])"
  by (simp add: busidx_def logger_def bind_res_def ret_def)

subsection \<open>The input tables\<close>

text \<open>\<open>bus1\<close> with \<open>busmap1\<close>, and \<open>bus57\<close> with \<open>busmap57\<close>, are what \<^verbatim>\<open>_bus_data\<close> builds
  from the bus records they stand for: the same table, and the same positions for the
  numbers and names of the buses and for an identifier that is not a bus.\<close>

lemma bus_data_bus1:
  "map_sum id (\<lambda>(((buses, busmap), reader), lg).
       (buses, map busmap [''1'', ''BUS1'', ''2''], reader, lg))
     (bus_data py0
        (csv_reader py0 (CHR '','')
           [''1, 'BUS1', 138.0, 1, 0.0, 0.0, 1, 1, 1.0, 0.0, 1'', ''0 / END OF BUS DATA'']) 30) =
   Inr (bus1, map busmap1 [''1'', ''BUS1'', ''2''], [], [BusRecords 1])"
  by code_simp

lemma bus_data_bus57:
  "map_sum id (\<lambda>(((buses, busmap), reader), lg).
       (buses, map busmap [''5'', ''FIVE'', ''7'', ''SEVEN'', ''8''], reader, lg))
     (bus_data py0
        (csv_reader py0 (CHR '','')
           [''5, 'FIVE', 138.0, 1, 0.0, 0.0, 1, 1, 1.0, 0.0, 1'',
            ''7, 'SEVEN', 138.0, 2, 0.0, 0.0, 1, 1, 1.0, 0.0, 1'',
            ''0 / END OF BUS DATA'']) 30) =
   Inr (bus57, map busmap57 [''5'', ''FIVE'', ''7'', ''SEVEN'', ''8''], [], [BusRecords 2])"
  by code_simp

subsection \<open>Switched shunts accumulate\<close>

lemma shunt_record_ok:
  assumes v: "version \<noteq> 32" and ok: "shunt_row_ok B busmap bus r"
  shows "\<exists>bus' lg. shunt_record B version r bus busmap = Inr (bus', lg) \<and>
           length bus' = length bus \<and>
           (\<forall>k < length bus. length (bus' ! k) = length (bus ! k) \<and>
              bus' ! k ! 5 = bus ! k ! 5 + shunt_bs B busmap k r \<and>
              (\<forall>j. j \<noteq> 5 \<longrightarrow> bus' ! k ! j = bus ! k ! j))"
proof (cases "busmap (strip_quote (r ! 0))")
  case None
  with v ok have "shunt_record B version r bus busmap = Inr (bus, [BusNotFound (strip_quote (r ! 0))])"
    by (simp add: shunt_record_def shunt_row_ok_def ret_def)
  with None show ?thesis by (simp add: shunt_bs_def)
next
  case (Some i)
  with ok obtain b where r: "r \<noteq> []" "7 < length r" and b: "py_float B (r ! 7) = Some b"
    and i: "i < length bus" "5 < length (bus ! i)"
    by (auto simp: shunt_row_ok_def)
  have "shunt_record B version r bus busmap =
          Inr (bus[i := (bus ! i)[5 := bus ! i ! 5 + b]], [])"
    using v r b i Some
    by (simp add: shunt_record_def float_at_Some get_cell_def set_cell_def) (simp add: ret_def)
  moreover have "\<forall>k < length bus.
       length (bus[i := (bus ! i)[5 := bus ! i ! 5 + b]] ! k) = length (bus ! k) \<and>
       bus[i := (bus ! i)[5 := bus ! i ! 5 + b]] ! k ! 5 = bus ! k ! 5 + shunt_bs B busmap k r \<and>
       (\<forall>j. j \<noteq> 5 \<longrightarrow> bus[i := (bus ! i)[5 := bus ! i ! 5 + b]] ! k ! j = bus ! k ! j)"
    using i Some b by (auto simp: nth_list_update shunt_bs_def)
  ultimately show ?thesis by simp
qed

lemma shunt_row_ok_lengths:
  assumes "length bus' = length bus" and "\<forall>k < length bus. length (bus' ! k) = length (bus ! k)"
  shows "shunt_row_ok B busmap bus' r = shunt_row_ok B busmap bus r"
  using assms by (auto simp: shunt_row_ok_def split: option.splits)

lemma shunt_loop_ok:
  assumes v: "version \<noteq> 32" and s: "is_sentinel_row s"
  shows "list_all (shunt_row_ok B busmap bus) rows \<Longrightarrow>
         \<exists>bus' lg. shunt_loop B version (rows @ s # rest) bus busmap c = Inr ((bus', rest), lg) \<and>
           length bus' = length bus \<and>
           (\<forall>k < length bus. length (bus' ! k) = length (bus ! k) \<and>
              bus' ! k ! 5 = bus ! k ! 5 + sum_list (map (shunt_bs B busmap k) rows) \<and>
              (\<forall>j. j \<noteq> 5 \<longrightarrow> bus' ! k ! j = bus ! k ! j))"
proof (induction rows arbitrary: bus c)
  case Nil
  from s have "shunt_loop B version (s # rest) bus busmap c = Inr ((bus, rest), [ShuntRecords c])"
    by (simp add: is_sentinel_row_def logger_def ret_def)
  then show ?case by simp
next
  case (Cons r rows)
  then have ok: "shunt_row_ok B busmap bus r" and oks: "list_all (shunt_row_ok B busmap bus) rows"
    by simp_all
  from shunt_record_ok[OF v ok] obtain bus1 lg1 where
    rec: "shunt_record B version r bus busmap = Inr (bus1, lg1)" and
    len: "length bus1 = length bus" and
    cells: "\<forall>k < length bus. length (bus1 ! k) = length (bus ! k) \<and>
              bus1 ! k ! 5 = bus ! k ! 5 + shunt_bs B busmap k r \<and>
              (\<forall>j. j \<noteq> 5 \<longrightarrow> bus1 ! k ! j = bus ! k ! j)"
    by blast
  from len cells have "shunt_row_ok B busmap bus1 = shunt_row_ok B busmap bus"
    by (intro ext shunt_row_ok_lengths) simp_all
  with oks have "list_all (shunt_row_ok B busmap bus1) rows" by simp
  from Cons.IH[OF this, of "Suc c"] obtain bus2 lg2 where
    loop: "shunt_loop B version (rows @ s # rest) bus1 busmap (Suc c) = Inr ((bus2, rest), lg2)" and
    len2: "length bus2 = length bus1" and
    cells2: "\<forall>k < length bus1. length (bus2 ! k) = length (bus1 ! k) \<and>
              bus2 ! k ! 5 = bus1 ! k ! 5 + sum_list (map (shunt_bs B busmap k) rows) \<and>
              (\<forall>j. j \<noteq> 5 \<longrightarrow> bus2 ! k ! j = bus1 ! k ! j)"
    by blast
  from ok have r: "r \<noteq> []" "not_sentinel (r ! 0)" by (simp_all add: shunt_row_ok_def)
  have "shunt_loop B version ((r # rows) @ s # rest) bus busmap c = Inr ((bus2, rest), lg1 @ lg2)"
    using r rec loop by simp
  moreover have "\<forall>k < length bus. length (bus2 ! k) = length (bus ! k) \<and>
              bus2 ! k ! 5 = bus ! k ! 5 + sum_list (map (shunt_bs B busmap k) (r # rows)) \<and>
              (\<forall>j. j \<noteq> 5 \<longrightarrow> bus2 ! k ! j = bus ! k ! j)"
    using len cells cells2 by simp
  ultimately show ?case using len len2 by simp
qed

text \<open>
  C9. For revisions 29 and 30 the switched shunt parser reads the section to its sentinel
  and, for each record whose bus identifier resolves, adds the record's susceptance
  \<^verbatim>\<open>BINIT\<close> into column 5 (\<^verbatim>\<open>Bs\<close>) of that bus's row: after the section the cell holds
  what it held before plus the sum over the section's records for that bus, every other
  cell is as it was, and the reader stands after the sentinel. The records are those the
  parser reads without raising (\<open>shunt_row_ok\<close>). This is the function
  \<^verbatim>\<open>_switched_shunt_data(reader, bus, version, busmap)\<close> called with its four arguments.
\<close>

theorem switched_shunt_data_accumulates:
  assumes "version = 29 \<or> version = 30"
    and "list_all (shunt_row_ok B busmap bus) rows"
    and "is_sentinel_row s"
  shows "\<exists>bus' lg.
           switched_shunt_data B (rows @ s # rest) bus version busmap = Inr ((bus', rest), lg) \<and>
           length bus' = length bus \<and>
           (\<forall>k < length bus.
              bus' ! k ! 5 = bus ! k ! 5 + sum_list (map (shunt_bs B busmap k) rows) \<and>
              (\<forall>j. j \<noteq> 5 \<longrightarrow> bus' ! k ! j = bus ! k ! j))"
proof -
  from assms(1) have "version \<noteq> 32" by auto
  from shunt_loop_ok[OF this assms(3) assms(2), of rest 0] show ?thesis
    unfolding switched_shunt_data_def by blast
qed

theorem switched_shunt_data_accumulates_witness:
  "list_all (shunt_row_ok py0 busmap1 bus1)
     [shunt_row ''1'' ''10'', shunt_row ''9'' ''7'', shunt_row ''BUS1'' ''5.5''] \<and>
   is_sentinel_row [''0 / END OF SWITCHED SHUNT DATA''] \<and>
   (\<exists>bus' lg.
     switched_shunt_data py0
       ([shunt_row ''1'' ''10'', shunt_row ''9'' ''7'', shunt_row ''BUS1'' ''5.5''] @
        [''0 / END OF SWITCHED SHUNT DATA''] # [[''Q'']]) bus1 30 busmap1 =
       Inr ((bus', [[''Q'']]), lg) \<and>
     bus' ! 0 ! 5 = 15.5)"
proof -
  have ok: "list_all (shunt_row_ok py0 busmap1 bus1)
              [shunt_row ''1'' ''10'', shunt_row ''9'' ''7'', shunt_row ''BUS1'' ''5.5'']"
    by code_simp
  have s: "is_sentinel_row [''0 / END OF SWITCHED SHUNT DATA'']"
    by code_simp
  have sum: "bus1 ! 0 ! 5 + sum_list (map (shunt_bs py0 busmap1 0)
       [shunt_row ''1'' ''10'', shunt_row ''9'' ''7'', shunt_row ''BUS1'' ''5.5'']) = 15.5"
    by code_simp
  have len: "0 < length bus1" by (simp add: bus1_def)
  from switched_shunt_data_accumulates[OF _ ok s, of 30 "[[''Q'']]"] sum len
  have "\<exists>bus' lg.
     switched_shunt_data py0
       ([shunt_row ''1'' ''10'', shunt_row ''9'' ''7'', shunt_row ''BUS1'' ''5.5''] @
        [''0 / END OF SWITCHED SHUNT DATA''] # [[''Q'']]) bus1 30 busmap1 =
       Inr ((bus', [[''Q'']]), lg) \<and>
     bus' ! 0 ! 5 = 15.5"
    by fastforce
  with ok s show ?thesis by blast
qed

subsection \<open>Revision detection\<close>

text \<open>
  C10. Revision detection does fail: when the first line has three fields or more and the
  third is not an integer, \<^verbatim>\<open>int\<close> raises \<^verbatim>\<open>ValueError\<close> and \<^verbatim>\<open>_version\<close> returns no
  revision, where its docstring has it determine the version "or return the default
  version" and its two other unsuccessful cases (fewer than three fields, an unsupported
  number) do give 30. The third field \<^verbatim>\<open>abc\<close> is one such header; a header with no
  revision field and commas in its comment is another.
\<close>

theorem version_of_not_integer_raises:
  "version_of py0 [''0, 100.0, abc''] (CHR '','') = Inl ValueError \<and>
   version_of py0 [''0, 100.0 / PSSE-29 THU, JAN 01 2009''] (CHR '','') = Inl ValueError"
  by code_simp

text \<open>
  The fallbacks that \<^verbatim>\<open>_version\<close> has. When the stream has a first row: with fewer than
  three fields the revision is 30; otherwise, when the third field, with a trailing
  \<^verbatim>\<open>/\<close>-comment removed, reads as an integer, a supported one is the revision, and any
  other one (99, say) logs the warning and gives revision 30. Whatever is returned is one
  of 29, 30, 31, 32.
\<close>

lemma version_of_fallbacks:
  "(\<forall>h0 rest. csv_reader B delimiter fd = h0 # rest \<longrightarrow>
      (length h0 < 3 \<longrightarrow> version_of B fd delimiter = Inr (30, [NoVersionInfo 30])) \<and>
      (3 \<le> length h0 \<longrightarrow>
         (\<forall>v. py_int B (revision_field (h0 ! 2)) = Some v \<longrightarrow>
            version_of B fd delimiter =
              (if v \<in> {29, 30, 31, 32} then Inr (v, [VersionFound v])
               else Inr (30, [VersionFound v, VersionNotSupported v]))))) \<and>
   (\<forall>v lg. version_of B fd delimiter = Inr (v, lg) \<longrightarrow> v \<in> {29, 30, 31, 32})"
proof (cases "csv_reader B delimiter fd")
  case Nil
  then show ?thesis by (simp add: version_of_def raise_def)
next
  case (Cons h0 rest)
  show ?thesis
  proof (cases "length h0 < 3")
    case True
    with Cons show ?thesis
      by (simp add: version_of_def DEFAULT_VERSION_def logger_def ret_def bind_res_def)
  next
    case False
    show ?thesis
    proof (cases "py_int B (revision_field (h0 ! 2))")
      case None
      with Cons False show ?thesis
        by (auto simp: version_of_def revision_field_def to_int_def raise_def
            split: if_splits)
    next
      case (Some v)
      with Cons False show ?thesis
        by (auto simp: version_of_def revision_field_def to_int_def DEFAULT_VERSION_def
            SUPPORTED_VERSIONS_def logger_def ret_def bind_res_def split: if_splits)
    qed
  qed
qed

lemma version_of_fallback_99:
  "csv_reader py0 (CHR '','') [''0, 100.0, 99 / case''] = [[''0'', ''100.0'', ''99 / case'']] \<and>
   py_int py0 (revision_field ''99 / case'') = Some 99 \<and>
   version_of py0 [''0, 100.0, 99 / case''] (CHR '','') =
     Inr (30, [VersionFound 99, VersionNotSupported 99])"
proof -
  have rows: "csv_reader py0 (CHR '','') [''0, 100.0, 99 / case''] =
                [[''0'', ''100.0'', ''99 / case'']]"
    by code_simp
  have rev: "py_int py0 (revision_field ''99 / case'') = Some 99"
    by code_simp
  from version_of_fallbacks[of py0 "CHR '',''" "[''0, 100.0, 99 / case'']"] rows rev
  show ?thesis by simp
qed

subsection \<open>The power flow pipeline never returns\<close>

text \<open>
  C1. On the end-to-end file (comma-delimited, revision 30, base 100 MVA, one bus, one
  load of 50 MW and 20 MVAr in service, then the sentinel of every other section)
  \<^verbatim>\<open>pf2mpc\<close> does not return a case: it raises \<^verbatim>\<open>TypeError\<close>, at the call
  \<^verbatim>\<open>_vsc_dc_lines()\<close>.
\<close>

theorem pf2mpc_end_to_end_raises:
  "pf2mpc py0 end_to_end_file None None = Inl TypeError"
  by code_simp

text \<open>What the sections before that call have built from the file by then is what the
  scenario expects of the case: revision 30, base 100, one bus row with load fields
  (50, 20), no generator and no branch.\<close>

lemma pf2mpc_sections_end_to_end:
  "map_sum id (\<lambda>((rev, baseMVA, busdata, busmap, gendata, branchdata, reader), lg).
       (rev, baseMVA, busdata, gendata, branchdata))
     (pf2mpc_sections py0 end_to_end_file None None) =
   Inr (30, 100, [[1, 1, 50, 20, 0, 0, 1, 1, 0, 138, 1, 1.1, 0.9]], [], [])"
  by code_simp

text \<open>
  C2, as the code has it. For every input stream, revision and delimiter \<^verbatim>\<open>pf2mpc\<close> never
  returns a case. When the sections up to the two-terminal DC lines (lines 110 to 130)
  complete, it raises \<^verbatim>\<open>TypeError\<close>, since \<^verbatim>\<open>_vsc_dc_lines()\<close> is called without its
  argument; when one of those sections raises, that exception is the one \<^verbatim>\<open>pf2mpc\<close>
  raises, and it need not be a \<^verbatim>\<open>TypeError\<close>.
\<close>

theorem pf2mpc_never_returns:
  "(\<forall>mpc lg. pf2mpc B fd version delimiter \<noteq> Inr (mpc, lg)) \<and>
   (\<forall>x lg. pf2mpc_sections B fd version delimiter = Inr (x, lg) \<longrightarrow>
      pf2mpc B fd version delimiter = Inl TypeError) \<and>
   (\<forall>e. pf2mpc_sections B fd version delimiter = Inl e \<longrightarrow>
      pf2mpc B fd version delimiter = Inl e)"
proof (cases "pf2mpc_sections B fd version delimiter")
  case (Inl e)
  then show ?thesis by (simp add: pf2mpc_def)
next
  case (Inr a)
  then show ?thesis
    by (cases a) (simp add: pf2mpc_def too_few_args_def raise_def bind_res_def split: prod.splits)
qed

theorem pf2mpc_never_returns_witness:
  "\<not> isl (pf2mpc_sections py0 end_to_end_file None None) \<and>
   pf2mpc py0 end_to_end_file None None = Inl TypeError"
proof -
  have s: "\<not> isl (pf2mpc_sections py0 end_to_end_file None None)"
    by code_simp
  then obtain x lg where "pf2mpc_sections py0 end_to_end_file None None = Inr (x, lg)"
    by (cases "pf2mpc_sections py0 end_to_end_file None None") auto
  with pf2mpc_never_returns[of py0 end_to_end_file None None] s show ?thesis
    by blast
qed

text \<open>C2 as stated fails: on the empty stream the exception is \<^verbatim>\<open>StopIteration\<close>, with the
  delimiter and the revision detected or given.\<close>

theorem pf2mpc_empty_stream_StopIteration:
  "pf2mpc py0 [] None None = Inl StopIteration \<and>
   pf2mpc py0 [] (Some 30) (Some (CHR '','')) = Inl StopIteration"
  by code_simp

subsection \<open>Loads\<close>

text \<open>
  C3. Two load records in service at bus 1, with demands (10, 5) and (3, 1): the load
  fields of the bus row end as (3, 1), the demand of the last record, and not as the sum
  (13, 6). \<^verbatim>\<open>_load_data\<close> assigns (\<^verbatim>\<open>bus[idx, 2] = ...\<close>) where \<^verbatim>\<open>_switched_shunt_data\<close>
  adds (\<^verbatim>\<open>bus[idx, 5] += bs\<close>).
\<close>

theorem load_data_overwrites_demand:
  "load_data py0
     [load_row ''1'' ''10'' ''5'' ''1.0'', load_row ''1'' ''3'' ''1'' ''1.0'', [''0'']]
     bus1 busmap1 30 =
   Inr (([[1, 1, 3, 1, 0, 0, 1, 1, 0, 138, 1, 1.1, 0.9]], []), [LoadRecords 2])"
  by code_simp

text \<open>
  C5. A load record whose status field is the text \<^verbatim>\<open>0\<close> is not skipped: its demand
  (50, 20) is written into the bus row. \<^verbatim>\<open>bool("0")\<close> is true, as is the truth value of
  every string but the empty one.
\<close>

theorem load_data_status_zero_counts:
  "load_data py0 [load_row ''0'' ''50'' ''20'' ''1.0'', [''0'']] bus1 busmap1 30 =
   Inr (([[1, 1, 50, 20, 0, 0, 1, 1, 0, 138, 1, 1.1, 0.9]], []), [LoadRecords 1])"
  by code_simp

text \<open>
  C6. For revision 32 a load record whose scale factor is 1.0 still logs the not-scaled
  warning: the test \<^verbatim>\<open>(scale != 0.0) or (scale != 1.0)\<close> holds of every number. The
  demand written is the unscaled (50, 20).
\<close>

theorem load_data_unit_scale_warns:
  "load_data py0 [load_row ''1'' ''50'' ''20'' ''1.0'', [''0'']] bus1 busmap1 32 =
   Inr (([[1, 1, 50, 20, 0, 0, 1, 1, 0, 138, 1, 1.1, 0.9]], []),
        [NotScaled ''1'' 0 1, LoadRecords 1])"
  by code_simp

subsection \<open>Sections without parsing logic\<close>

lemma consume_section_shorter:
  "consume_section reader = Inr (reader', lg) \<Longrightarrow> length reader' < length reader"
proof (induction reader arbitrary: lg)
  case Nil
  then show ?case by (simp add: raise_def)
next
  case (Cons r reader)
  show ?case
  proof (cases "r = []")
    case True
    with Cons.prems show ?thesis by (simp add: getf_def raise_def)
  next
    case False
    show ?thesis
    proof (cases "not_sentinel (r ! 0)")
      case True
      with False Cons.prems have "consume_section reader = Inr (reader', lg)"
        by (simp add: ret_def bind_res_def split: sum.splits)
      from Cons.IH[OF this] show ?thesis by simp
    next
      case False
      with \<open>r \<noteq> []\<close> Cons.prems show ?thesis by (simp add: ret_def)
    qed
  qed
qed

text \<open>
  C4, as the code has it. Every function for a section without parsing logic (fixed
  shunts, transformers, area interchange, the DC lines, impedance correction tables, line
  groupings, zones, interarea transfers, owners, FACTS devices, the Q record) returns
  without reading and without logging: the reader it leaves is the reader it was given,
  so the section's rows and its sentinel are still to be read by whatever reads next.
  That is never what reading the section up to its sentinel would leave.
\<close>

theorem placeholders_read_nothing:
  "fixed_shunt_data reader = Inr (reader, []) \<and>
   transformer_data reader branch version busmap = Inr (reader, []) \<and>
   area_interchange_data reader = Inr (reader, []) \<and>
   two_terminal_dc_line_data reader = Inr (reader, []) \<and>
   vsc_dc_lines reader = Inr (reader, []) \<and>
   transformer_impedance_correction_tables reader = Inr (reader, []) \<and>
   multi_terminal_dc_transmission_line_data reader = Inr (reader, []) \<and>
   multi_section_line_grouping_data reader = Inr (reader, []) \<and>
   zone_data reader = Inr (reader, []) \<and>
   interarea_transfer_data reader = Inr (reader, []) \<and>
   owner_data reader = Inr (reader, []) \<and>
   facts_device_data reader = Inr (reader, []) \<and>
   q_record reader = Inr (reader, []) \<and>
   consume_section reader \<noteq> Inr (reader, [])"
proof -
  have "consume_section reader \<noteq> Inr (reader, [])"
    using consume_section_shorter[of reader reader "[]"] by auto
  then show ?thesis
    by (simp add: fixed_shunt_data_def transformer_data_def area_interchange_data_def
        two_terminal_dc_line_data_def vsc_dc_lines_def
        transformer_impedance_correction_tables_def
        multi_terminal_dc_transmission_line_data_def multi_section_line_grouping_data_def
        zone_data_def interarea_transfer_data_def owner_data_def facts_device_data_def
        q_record_def ret_def)
qed

text \<open>
  C4 as stated fails: with one fixed shunt record before the sentinel,
  \<^verbatim>\<open>_fixed_shunt_data\<close> leaves the record and the sentinel unread, where consuming the
  section would leave the reader at the next section; and the generator parser, which
  \<^verbatim>\<open>pf2mpc\<close> calls next for revisions 31 and 32, then reads the fixed shunt record as a
  generator record and raises on its missing fields.
\<close>

theorem fixed_shunt_data_leaves_rows:
  "fixed_shunt_data [fixed_shunt_row, [''0 / END OF FIXED SHUNT DATA''], [''0'']] =
     Inr ([fixed_shunt_row, [''0 / END OF FIXED SHUNT DATA''], [''0'']], []) \<and>
   consume_section [fixed_shunt_row, [''0 / END OF FIXED SHUNT DATA''], [''0'']] =
     Inr ([[''0'']], []) \<and>
   generator_data py0 [fixed_shunt_row, [''0 / END OF FIXED SHUNT DATA''], [''0'']] busmap1 =
     Inl IndexError"
  by code_simp

subsection \<open>Branches\<close>

lemma branch_record_ok:
  assumes ok: "branch_row_ok B busmap bus r"
  shows "\<exists>new lg. branch_record B r bus busmap acc = Inr (acc @ new, lg) \<and>
           map (\<lambda>brch. brch ! 0) new =
             map (from_bus_number bus busmap) (filter (both_resolve busmap) [r])"
proof -
  from ok have r: "0 < length r" "1 < length r" by (auto simp: branch_row_ok_def)
  show ?thesis
  proof (cases "busmap (strip_quote (r ! 0))")
    case None
    then have "\<exists>lg. branch_record B r bus busmap acc = Inr (acc, lg)"
      using r by (cases "busmap (strip_quote (r ! 1))")
        (simp_all add: branch_record_def bind_res_Inr ret_def)
    with None show ?thesis by (auto simp: both_resolve_def resolves_def)
  next
    case f: (Some f)
    show ?thesis
    proof (cases "busmap (strip_quote (r ! 1))")
      case None
      with f r have "\<exists>lg. branch_record B r bus busmap acc = Inr (acc, lg)"
        by (simp add: branch_record_def bind_res_Inr ret_def)
      with None show ?thesis by (auto simp: both_resolve_def resolves_def)
    next
      case t: (Some t)
      with f ok obtain v3 v4 v5 v6 v7 v8 v13 where
        len: "13 < length r" and
        v: "py_float B (r ! 3) = Some v3" "py_float B (r ! 4) = Some v4"
           "py_float B (r ! 5) = Some v5" "py_float B (r ! 6) = Some v6"
           "py_float B (r ! 7) = Some v7" "py_float B (r ! 8) = Some v8"
           "py_float B (r ! 13) = Some v13" and
        cells: "f < length bus" "0 < length (bus ! f)" "t < length bus" "1 < length (bus ! t)"
        by (auto simp: branch_row_ok_def)
      have "branch_record B r bus busmap acc =
              Inr (acc @ [[bus ! f ! 0, bus ! t ! 1, v3, v4, v5, v6, v7, v8, 0, 0, v13, - 360, 360]], [])"
        using f t r len v cells
        by (simp add: branch_record_def float_at_Some get_cell_def) (simp add: ret_def)
      with f t show ?thesis
        by (simp add: both_resolve_def resolves_def from_bus_number_def)
    qed
  qed
qed

lemma branch_loop_ok:
  assumes s: "is_sentinel_row s"
  shows "list_all (branch_row_ok B busmap bus) rows \<Longrightarrow>
         \<exists>new lg. branch_loop B (rows @ s # rest) bus busmap acc = Inr ((acc @ new, rest), lg) \<and>
           map (\<lambda>brch. brch ! 0) new =
             map (from_bus_number bus busmap) (filter (both_resolve busmap) rows)"
proof (induction rows arbitrary: acc)
  case Nil
  from s have "branch_loop B (s # rest) bus busmap acc =
                 Inr ((acc, rest), [BranchRecords (length acc)])"
    by (simp add: is_sentinel_row_def logger_def ret_def)
  then show ?case by simp
next
  case (Cons r rows)
  then have ok: "branch_row_ok B busmap bus r" and oks: "list_all (branch_row_ok B busmap bus) rows"
    by simp_all
  from branch_record_ok[OF ok, of acc] obtain new1 lg1 where
    rec: "branch_record B r bus busmap acc = Inr (acc @ new1, lg1)" and
    f1: "map (\<lambda>brch. brch ! 0) new1 =
           map (from_bus_number bus busmap) (filter (both_resolve busmap) [r])"
    by blast
  from Cons.IH[OF oks, of "acc @ new1"] obtain new2 lg2 where
    loop: "branch_loop B (rows @ s # rest) bus busmap (acc @ new1) =
             Inr (((acc @ new1) @ new2, rest), lg2)" and
    f2: "map (\<lambda>brch. brch ! 0) new2 =
           map (from_bus_number bus busmap) (filter (both_resolve busmap) rows)"
    by blast
  from ok have r: "0 < length r" "not_sentinel (r ! 0)" by (auto simp: branch_row_ok_def)
  have "branch_loop B ((r # rows) @ s # rest) bus busmap acc =
          Inr ((acc @ (new1 @ new2), rest), lg1 @ lg2)"
    using r rec loop by simp
  moreover have "map (\<lambda>brch. brch ! 0) (new1 @ new2) =
           map (from_bus_number bus busmap) (filter (both_resolve busmap) (r # rows))"
    using f1 f2 by (simp split: if_splits)
  ultimately show ?case by blast
qed

text \<open>
  C7, as the code has it. The non-transformer branch parser reads the section to its
  sentinel and appends one branch row for each record whose two ends resolve, in order.
  The first field of such a row is column 0 of the from-bus's row of the bus table, which
  is the bus number that \<^verbatim>\<open>_bus_data\<close> stored there, not the position of that row. The
  records are those the parser reads without raising (\<open>branch_row_ok\<close>).
\<close>

theorem nontransformer_branch_from_bus_number:
  assumes "list_all (branch_row_ok B busmap bus) rows" and "is_sentinel_row s"
  shows "\<exists>branches lg.
           nontransformer_branch_data B (rows @ s # rest) bus busmap =
             Inr ((branches, rest), lg) \<and>
           map (\<lambda>brch. brch ! 0) branches =
             map (from_bus_number bus busmap) (filter (both_resolve busmap) rows)"
  using branch_loop_ok[OF assms(2) assms(1), of rest "[]"]
  unfolding nontransformer_branch_data_def by simp

theorem nontransformer_branch_from_bus_number_witness:
  "list_all (branch_row_ok py0 busmap57 bus57)
     [branch_row ''5'' ''7'', branch_row ''5'' ''8'', branch_row ''SEVEN'' ''5''] \<and>
   is_sentinel_row [''0 / END OF BRANCH DATA''] \<and>
   (\<exists>branches lg.
     nontransformer_branch_data py0
       ([branch_row ''5'' ''7'', branch_row ''5'' ''8'', branch_row ''SEVEN'' ''5''] @
        [''0 / END OF BRANCH DATA''] # [[''T'']]) bus57 busmap57 =
       Inr ((branches, [[''T'']]), lg) \<and>
     map (\<lambda>brch. brch ! 0) branches = [5, 7])"
proof -
  have ok: "list_all (branch_row_ok py0 busmap57 bus57)
              [branch_row ''5'' ''7'', branch_row ''5'' ''8'', branch_row ''SEVEN'' ''5'']"
    by code_simp
  have s: "is_sentinel_row [''0 / END OF BRANCH DATA'']"
    by code_simp
  have ids: "map (from_bus_number bus57 busmap57) (filter (both_resolve busmap57)
       [branch_row ''5'' ''7'', branch_row ''5'' ''8'', branch_row ''SEVEN'' ''5'']) = [5, 7]"
    by code_simp
  from nontransformer_branch_from_bus_number[OF ok s, of "[[''T'']]"] ids ok s
  show ?thesis by simp
qed

text \<open>
  C7 as stated fails: for a branch from bus 5 (row 0 of the bus table) to bus 7 (row 1,
  type 2) the first two fields of the branch row are 5 and 2, not the row positions 0
  and 1.
\<close>

theorem branch_fields_not_row_indices:
  "nontransformer_branch_data py0 [branch_row ''5'' ''7'', [''0'']] bus57 busmap57 =
     Inr (([[5, 2, 0.01, 0.1, 0.02, 100, 100, 100, 0, 0, 1, - 360, 360]], []),
          [BranchRecords 1]) \<and>
   busidx ''5'' busmap57 = Inr (Some 0, []) \<and>
   busidx ''7'' busmap57 = Inr (Some 1, [])"
  by code_simp

subsection \<open>The status code\<close>

text \<open>
  C8, as the code has it. When the primary input is a path that fails to open,
  \<^verbatim>\<open>raw2mpc\<close> returns the empty case and one status code: 2 when the secondary input is a
  path that fails to open too, the code assigned last having replaced the 1 assigned
  first, and 1 otherwise. The codes are not combined. The case being empty, the output is
  not saved, whatever \<^verbatim>\<open>savemat\<close> would do.
\<close>

theorem raw2mpc_primary_open_fails:
  assumes "fopen p = None"
  shows "\<exists>lg. raw2mpc B fopen savemat (Path p) opf_rawfile matfile ver delim =
           Inr (([], (case opf_rawfile of
                        Some (Path q) \<Rightarrow> (if fopen q = None then 2 else 1)
                      | _ \<Rightarrow> 1)), lg)"
  using assms
  by (auto simp: raw2mpc_def opf2mpc_def dict_update_def logger_def ret_def bind_res_def
      split: option.splits source.splits)

theorem raw2mpc_primary_open_fails_witness:
  "(\<lambda>_ :: string. None :: string list option) ''a.raw'' = None \<and>
   (\<exists>lg. raw2mpc py0 (\<lambda>_. None) (\<lambda>_ _. False) (Path ''a.raw'') (Some (Path ''b.raw''))
          (Some ''a.mat'') None None = Inr (([], 2), lg))"
  using raw2mpc_primary_open_fails[of "\<lambda>_. None" "''a.raw''" py0 "\<lambda>_ _. False"
      "Some (Path ''b.raw'')" "Some ''a.mat''" None None]
  by simp

text \<open>
  C8 as stated fails: with both inputs failing to open (and an output that could not be
  saved) the status returned is 2, though the first code assigned in the run is 1.
\<close>

theorem raw2mpc_both_fail_status_2:
  "raw2mpc py0 (\<lambda>_. None) (\<lambda>_ _. False) (Path ''a.raw'') (Some (Path ''b.raw''))
     (Some ''a.mat'') None None =
   Inr (([], 2), [LoadingPF ''a.raw'', ErrorOpening ''a.raw'',
                  LoadingOPF ''b.raw'', ErrorOpening ''b.raw''])"
  by code_simp

end
